theory Spec2Isabelle
  imports Complex_Main
begin

section \<open>Failures of the transport layer\<close>

text \<open>
  The code inspects a caught failure through three optional fields only:
  \<^verbatim>\<open>error?.status === 429 || error?.code === 429 || error?.message?.includes('429')\<close>.
  A field that is present holds a number or a string; \<open>===\<close> is strict, so the string
  \<open>"429"\<close> in \<open>status\<close> is not the number 429. The field \<open>name\<close> is the name of the
  error's class (\<open>Error\<close>, \<open>SyntaxError\<close>, ...).
\<close>

datatype jsval = JNum int | JStr string

record jserror =
  name :: string
  status :: "jsval option"
  code :: "jsval option"
  message :: "string option"

text \<open>\<open>String.prototype.startsWith\<close> and \<open>String.prototype.includes\<close>.\<close>

fun startsWith :: "string \<Rightarrow> string \<Rightarrow> bool" where
  "startsWith s [] = True"
| "startsWith [] (c # cs) = False"
| "startsWith (x # xs) (c # cs) = (x = c \<and> startsWith xs cs)"

fun includes_str :: "string \<Rightarrow> string \<Rightarrow> bool" where
  "includes_str [] sub = startsWith [] sub"
| "includes_str (x # xs) sub = (startsWith (x # xs) sub \<or> includes_str xs sub)"

text \<open>The condition of the \<open>if\<close> in \<open>retryRequest\<close>, without its \<open>retries > 0\<close> part.\<close>

definition isRateLimit :: "jserror \<Rightarrow> bool" where
  "isRateLimit e =
     (status e = Some (JNum 429) \<or> code e = Some (JNum 429) \<or>
      (case message e of None \<Rightarrow> False | Some m \<Rightarrow> includes_str m ''429''))"

section \<open>The retrying transport\<close>

text \<open>
  \<open>requestFn\<close> is a zero-argument unit of work with effects: it is a function of the
  outside world \<open>'w\<close> that returns its outcome (\<open>Inl\<close> a thrown failure, \<open>Inr\<close> the value)
  and the world after the call. What \<open>retryRequest\<close> does besides returning is recorded
  as a trace: one \<open>Call\<close> for each invocation of \<open>requestFn\<close>, one \<open>Wait d\<close> for each
  \<open>setTimeout\<close> of \<open>d\<close> milliseconds that it awaits.
\<close>

datatype event = Call | Wait nat

function retryRequest ::
  "('w \<Rightarrow> (jserror + 'a) \<times> 'w) \<Rightarrow> nat \<Rightarrow> nat \<Rightarrow> 'w \<Rightarrow> (jserror + 'a) \<times> event list \<times> 'w"
where
  "retryRequest requestFn retries delay w =
     (case requestFn w of
        (Inr v, w') \<Rightarrow> (Inr v, [Call], w')
      | (Inl error, w') \<Rightarrow>
          if retries > 0 \<and> isRateLimit error
          then (case retryRequest requestFn (retries - 1) (delay * 2) w' of
                  (r, tr, w'') \<Rightarrow> (r, Call # Wait delay # tr, w''))
          else (Inl error, [Call], w'))"
  by pat_completeness auto
termination
  by (relation "measure (\<lambda>(requestFn, retries, delay, w). retries)") auto

text \<open>The defaults of the source: \<open>retries = 3\<close>, \<open>delay = 2000\<close>.\<close>

definition retryRequest_default ::
  "('w \<Rightarrow> (jserror + 'a) \<times> 'w) \<Rightarrow> 'w \<Rightarrow> (jserror + 'a) \<times> event list \<times> 'w" where
  "retryRequest_default requestFn w = retryRequest requestFn 3 2000 w"



section \<open>Articles\<close>

datatype ArticleCategory = POLITICS | ECONOMY | SOCIETY | ENTERTAINMENT | TECH | SPORTS | OPINION

text \<open>
  The interface \<open>Article\<close>. A field declared with \<open>?\<close> may be absent (\<open>None\<close>). The code
  reads the optional fields by truthiness: an absent flag and \<open>false\<close> are both falsy,
  an absent string and the empty string are both falsy.
\<close>

record article =
  title :: string
  category :: ArticleCategory
  content :: string
  author :: string
  timestamp :: string
  isFakeNews :: "bool option"
  isCrazyMode :: "bool option"
  isEmergencyMode :: "bool option"
  isTimeMachineMode :: "bool option"
  targetYear :: "string option"
  previousArticleContext :: "string option"

definition truthy :: "bool option \<Rightarrow> bool" where
  "truthy b = (b = Some True)"

definition truthyStr :: "string option \<Rightarrow> bool" where
  "truthyStr s = (case s of None \<Rightarrow> False | Some t \<Rightarrow> t \<noteq> [])"

section \<open>Era context\<close>

text \<open>
  Each bracket of the era context is one template literal of the source, with the target
  year interpolated. \<open>Era b y\<close> is the literal of bracket \<open>b\<close> for \<open>targetYear = y\<close>;
  \<open>Present\<close> is the literal used when time-machine mode is off, which has no year in it.
  \<open>getEraContext\<close> has short literals and \<open>analyzeArticle\<close> long ones; the constructor
  names the bracket in both.
\<close>

datatype bracket = PrintBroadcast | PCCommunication | EarlySocialWeb | FutureEra | DefaultEra

datatype era_context = Era bracket "int option" | Present

text \<open>Comparisons of JavaScript numbers with \<open>NaN\<close> (\<open>None\<close>) are false.\<close>

definition js_lt :: "int option \<Rightarrow> int \<Rightarrow> bool" where
  "js_lt x n = (case x of None \<Rightarrow> False | Some v \<Rightarrow> v < n)"

definition js_gt :: "int option \<Rightarrow> int \<Rightarrow> bool" where
  "js_gt x n = (case x of None \<Rightarrow> False | Some v \<Rightarrow> v > n)"

definition js_ge :: "int option \<Rightarrow> int \<Rightarrow> bool" where
  "js_ge x n = (case x of None \<Rightarrow> False | Some v \<Rightarrow> v \<ge> n)"

text \<open>
  \<^verbatim>\<open>article.isTimeMachineMode && article.targetYear ? parseInt(article.targetYear) : currentYear\<close>,
  with \<open>currentYear\<close> the year of the clock and \<open>parseInt\<close> the builtin.
\<close>

definition effectiveYear :: "int \<Rightarrow> (string \<Rightarrow> int option) \<Rightarrow> article \<Rightarrow> int option" where
  "effectiveYear currentYear parseInt a =
     (if truthy (isTimeMachineMode a) \<and> truthyStr (targetYear a)
      then parseInt (the (targetYear a)) else Some currentYear)"

definition getEraContext :: "int \<Rightarrow> (string \<Rightarrow> int option) \<Rightarrow> article \<Rightarrow> era_context" where
  "getEraContext currentYear parseInt a =
     (let targetYear = effectiveYear currentYear parseInt a in
      if truthy (isTimeMachineMode a) then
        (if js_lt targetYear 1990 then Era PrintBroadcast targetYear
         else if js_lt targetYear 2000 then Era PCCommunication targetYear
         else if js_lt targetYear 2010 then Era EarlySocialWeb targetYear
         else if js_gt targetYear (currentYear + 5) then Era FutureEra targetYear
         else Era DefaultEra targetYear)
      else Present)"

text \<open>The \<open>if\<close> chain of \<open>analyzeArticle\<close> that assigns \<open>eraContextFull\<close>.\<close>

definition eraContextFull :: "int \<Rightarrow> (string \<Rightarrow> int option) \<Rightarrow> article \<Rightarrow> era_context" where
  "eraContextFull currentYear parseInt a =
     (let targetYear = effectiveYear currentYear parseInt a in
      if truthy (isTimeMachineMode a) then
        (if js_lt targetYear 1990 then Era PrintBroadcast targetYear
         else if js_ge targetYear 1990 \<and> js_lt targetYear 2000 then Era PCCommunication targetYear
         else if js_ge targetYear 2000 \<and> js_lt targetYear 2010 then Era EarlySocialWeb targetYear
         else if js_gt targetYear (currentYear + 5) then Era FutureEra targetYear
         else Era DefaultEra targetYear)
      else Present)"

section \<open>Mode instructions\<close>

text \<open>
  The four instruction blocks are four template literals of \<open>analyzeArticle\<close>, pairwise
  different texts; the constructor names the literal. \<open>modeInstructions\<close> is the array
  the code builds by \<open>push\<close>, one statement after the other.
\<close>

datatype mode_block = EmergencyBlock | CrazyBlock | FakeNewsBlock | NormalBlock

definition modeInstructions :: "article \<Rightarrow> mode_block list" where
  "modeInstructions a =
     (let m0 = [];
          m1 = (if truthy (isEmergencyMode a) then m0 @ [EmergencyBlock] else m0);
          m2 = (if truthy (isCrazyMode a) then m1 @ [CrazyBlock] else m1);
          m3 = (if truthy (isFakeNews a) then m2 @ [FakeNewsBlock] else m2);
          m4 = (if length m3 = 0 then m3 @ [NormalBlock] else m3)
      in m4)"

text \<open>The flags of the mode composer, in the precedence the specification fixes.\<close>

datatype flag = Emergency | Crazy | FakeNews

definition precedence :: "flag list" where
  "precedence = [Emergency, Crazy, FakeNews]"

fun active :: "article \<Rightarrow> flag \<Rightarrow> bool" where
  "active a Emergency = truthy (isEmergencyMode a)"
| "active a Crazy = truthy (isCrazyMode a)"
| "active a FakeNews = truthy (isFakeNews a)"

fun blockOf :: "flag \<Rightarrow> mode_block" where
  "blockOf Emergency = EmergencyBlock"
| "blockOf Crazy = CrazyBlock"
| "blockOf FakeNews = FakeNewsBlock"

section \<open>Simulation results\<close>

type_synonym number = real

record reply =
  username :: string
  content :: string
  likes :: number

datatype sentiment = positive | negative | neutral

text \<open>
  The interface \<open>Comment\<close> has the three fields of \<open>Reply\<close> and three more, so it is
  the record \<open>reply\<close> extended.
\<close>

record comment = reply +
  sentiment :: sentiment
  platform :: string
  replies :: "reply list"

record MediaCoverage =
  mediaName :: string
  headline :: string

record StockPoint =
  time :: string
  pointValue :: number

record StockSector =
  sectorName :: string
  change :: number

record StockAnalysis =
  indexName :: string
  startValue :: number
  endValue :: number
  graphData :: "StockPoint list"
  affectedSectors :: "StockSector list"
  marketCommentary :: string

record ExtraIndices =
  nationalAnxiety :: number
  economicStability :: number
  angerIndex :: number

record SimulationResult =
  viralityScore :: number
  reliabilityScore :: number
  controversyScore :: number
  publicSentiment :: string
  editorFeedback :: string
  impactSummary :: string
  comments :: "comment list"
  otherMediaCoverage :: "MediaCoverage list"
  viewCountEstimate :: number
  shareCount :: number
  stockAnalysis :: "StockAnalysis list option"
  extraIndices :: "ExtraIndices option"

text \<open>
  The object literal in the \<open>catch\<close> block of \<open>analyzeArticle\<close>. Its two Korean strings
  are given by their UTF-8 bytes; the literal has no \<open>stockAnalysis\<close> and no
  \<open>extraIndices\<close>.
\<close>

definition fallbackEditorFeedback :: string where
  "fallbackEditorFeedback =
     [CHR 0xEC, CHR 0x8B, CHR 0x9C, CHR 0xEC, CHR 0x8A, CHR 0xA4, CHR 0xED, CHR 0x85, CHR 0x9C] @ '' '' @
     [CHR 0xEC, CHR 0x98, CHR 0xA4, CHR 0xEB, CHR 0xA5, CHR 0x98] @ '': AI '' @
     [CHR 0xEC, CHR 0x9D, CHR 0x91, CHR 0xEB, CHR 0x8B, CHR 0xB5] @ '' '' @
     [CHR 0xEC, CHR 0xA7, CHR 0x80, CHR 0xEC, CHR 0x97, CHR 0xB0] @ ''. '' @
     [CHR 0xEC, CHR 0x9E, CHR 0xA0, CHR 0xEC, CHR 0x8B, CHR 0x9C] @ '' '' @
     [CHR 0xED, CHR 0x9B, CHR 0x84] @ '' '' @
     [CHR 0xEB, CHR 0x8B, CHR 0xA4, CHR 0xEC, CHR 0x8B, CHR 0x9C] @ '' '' @
     [CHR 0xEC, CHR 0x8B, CHR 0x9C, CHR 0xEB, CHR 0x8F, CHR 0x84, CHR 0xED, CHR 0x95, CHR 0xB4,
      CHR 0xEC, CHR 0xA3, CHR 0xBC, CHR 0xEC, CHR 0x84, CHR 0xB8, CHR 0xEC, CHR 0x9A, CHR 0x94] @ ''.''"

definition fallbackImpactSummary :: string where
  "fallbackImpactSummary =
     [CHR 0xEB, CHR 0x8D, CHR 0xB0, CHR 0xEC, CHR 0x9D, CHR 0xB4, CHR 0xED, CHR 0x84, CHR 0xB0] @ '' '' @
     [CHR 0xEC, CHR 0xA0, CHR 0x84, CHR 0xEC, CHR 0x86, CHR 0xA1] @ '' '' @
     [CHR 0xEC, CHR 0x8B, CHR 0xA4, CHR 0xED, CHR 0x8C, CHR 0xA8] @ ''.''"

definition fallbackResult :: SimulationResult where
  "fallbackResult =
     \<lparr> viralityScore = 0, reliabilityScore = 0, controversyScore = 0,
       publicSentiment = ''Error'',
       editorFeedback = fallbackEditorFeedback,
       impactSummary = fallbackImpactSummary,
       comments = [], otherMediaCoverage = [],
       viewCountEstimate = 0, shareCount = 0,
       stockAnalysis = None, extraIndices = None \<rparr>"

section \<open>Requests and the generation service\<close>

text \<open>
  A prompt is a template literal; the record holds the values interpolated into it, in the
  order of the template. The model identifier, the system instruction and the response
  schema are constants of the source and are not part of the record.
\<close>

record simulation_prompt =
  sp_eraContextFull :: era_context
  sp_previousContext :: "string option"
  sp_title :: string
  sp_category :: ArticleCategory
  sp_content :: string
  sp_author :: string
  sp_modeInstructions :: "mode_block list"

record reply_prompt =
  rp_eraContext :: era_context
  rp_emergency :: bool
  rp_crazy :: bool
  rp_fakeNews :: bool
  rp_title :: string
  rp_commentUsername :: string
  rp_commentContent :: string
  rp_commentPlatform :: string
  rp_reporterReply :: string

datatype request = SimulationRequest simulation_prompt | ReplyRequest reply_prompt

text \<open>\<open>GenerateContentResponse\<close>: the code reads its property \<^verbatim>\<open>text\<close> only, which may be absent.\<close>

record response =
  responseText :: "string option"

text \<open>
  What \<open>geminiService.ts\<close> uses and does not define: the year of the clock
  (\<open>new Date().getFullYear()\<close>), the builtin \<open>parseInt\<close> (\<open>None\<close> is \<open>NaN\<close>), the
  generation call \<open>ai.models.generateContent\<close> acting on the outside world \<open>'w\<close>, and
  \<open>JSON.parse\<close>, which either throws a \<open>SyntaxError\<close> (\<open>Inl\<close> its message) or returns
  the decoded value. The casts \<open>as SimulationResult\<close> and \<open>as Reply[]\<close> check nothing,
  so \<open>JSON.parse\<close> is taken at the two types the code casts to.
\<close>

record 'w env =
  currentYear :: int
  parseInt :: "string \<Rightarrow> int option"
  generateContent :: "request \<Rightarrow> 'w \<Rightarrow> (jserror + response) \<times> 'w"
  parseSimulation :: "string \<Rightarrow> string + SimulationResult"
  parseReplies :: "string \<Rightarrow> string + reply list"

definition syntaxError :: "string \<Rightarrow> jserror" where
  "syntaxError m = \<lparr> name = ''SyntaxError'', status = None, code = None, message = Some m \<rparr>"

text \<open>\<^verbatim>\<open>new Error("No response text generated")\<close>\<close>

definition noResponseText :: jserror where
  "noResponseText =
     \<lparr> name = ''Error'', status = None, code = None,
       message = Some ''No response text generated'' \<rparr>"

section \<open>The primary flow: analyzeArticle\<close>

definition buildPrompt :: "'w env \<Rightarrow> article \<Rightarrow> simulation_prompt" where
  "buildPrompt E a =
     \<lparr> sp_eraContextFull = eraContextFull (currentYear E) (parseInt E) a,
       sp_previousContext =
         (if truthyStr (previousArticleContext a) then previousArticleContext a else None),
       sp_title = title a, sp_category = category a,
       sp_content = article.content a, sp_author = author a,
       sp_modeInstructions = modeInstructions a \<rparr>"

text \<open>
  The body of the \<open>try\<close> block: the transport call, then the validation of the response
  (lines 295 to 299 of the source).
\<close>

definition validateSimulation :: "'w env \<Rightarrow> response \<Rightarrow> jserror + SimulationResult" where
  "validateSimulation E r =
     (if truthyStr (responseText r)
      then (case parseSimulation E (the (responseText r)) of
              Inl m \<Rightarrow> Inl (syntaxError m)
            | Inr v \<Rightarrow> Inr v)
      else Inl noResponseText)"

definition analyzeArticle_try ::
  "'w env \<Rightarrow> article \<Rightarrow> 'w \<Rightarrow> (jserror + SimulationResult) \<times> event list \<times> 'w" where
  "analyzeArticle_try E a w =
     (case retryRequest_default (generateContent E (SimulationRequest (buildPrompt E a))) w of
        (Inl error, tr, w') \<Rightarrow> (Inl error, tr, w')
      | (Inr r, tr, w') \<Rightarrow> (validateSimulation E r, tr, w'))"

text \<open>
  \<open>analyzeArticle\<close>: the \<open>try\<close> block with its \<open>catch\<close>. The result is a sum so that the
  caller's own \<open>catch\<close> can be modelled: \<open>Inl\<close> would be a rejected promise.
\<close>

definition analyzeArticle ::
  "'w env \<Rightarrow> article \<Rightarrow> 'w \<Rightarrow> (jserror + SimulationResult) \<times> event list \<times> 'w" where
  "analyzeArticle E a w =
     (case analyzeArticle_try E a w of
        (Inl error, tr, w') \<Rightarrow> (Inr fallbackResult, tr, w')
      | (Inr v, tr, w') \<Rightarrow> (Inr v, tr, w'))"

section \<open>The application: handlePublish\<close>

datatype AppState = EDITOR | SIMULATING | RESULT

record app =
  appState :: AppState
  currentArticle :: article
  result :: "SimulationResult option"
  history :: "(article \<times> SimulationResult) list"
  alerts :: "string list"

text \<open>
  \<open>handlePublish\<close> of the component \<open>App\<close>. The state variable \<open>article\<close> is the field
  \<open>currentArticle\<close>; \<open>alerts\<close> collects the messages shown by \<open>alert\<close>. The message
  of the \<open>catch\<close> block is given by its UTF-8 bytes.
\<close>

definition simulationAlert :: string where
  "simulationAlert =
     ''AI '' @
     [CHR 0xEC, CHR 0x8B, CHR 0x9C, CHR 0xEB, CHR 0xAE, CHR 0xAC, CHR 0xEB, CHR 0xA0, CHR 0x88, CHR 0xEC, CHR 0x9D, CHR 0xB4, CHR 0xEC, CHR 0x85, CHR 0x98] @
     '' '' @
     [CHR 0xEC, CHR 0xA4, CHR 0x91] @
     '' '' @
     [CHR 0xEC, CHR 0x98, CHR 0xA4, CHR 0xEB, CHR 0xA5, CHR 0x98, CHR 0xEA, CHR 0xB0, CHR 0x80] @
     '' '' @
     [CHR 0xEB, CHR 0xB0, CHR 0x9C, CHR 0xEC, CHR 0x83, CHR 0x9D, CHR 0xED, CHR 0x96, CHR 0x88, CHR 0xEC, CHR 0x8A, CHR 0xB5, CHR 0xEB, CHR 0x8B, CHR 0x88, CHR 0xEB, CHR 0x8B, CHR 0xA4] @
     ''.''"

definition handlePublish :: "'w env \<Rightarrow> app \<Rightarrow> 'w \<Rightarrow> app \<times> 'w" where
  "handlePublish E s w =
     (let s1 = s\<lparr>appState := SIMULATING\<rparr> in
      case analyzeArticle E (currentArticle s1) w of
        (Inr simulationResult, tr, w') \<Rightarrow>
          (s1\<lparr>result := Some simulationResult,
              history := (currentArticle s1, simulationResult) # history s1,
              appState := RESULT\<rparr>, w')
      | (Inl error, tr, w') \<Rightarrow>
          (s1\<lparr>alerts := alerts s1 @ [simulationAlert], appState := EDITOR\<rparr>, w'))"

section \<open>The reply-reaction sub-flow: generateReplyReaction\<close>

definition buildReplyPrompt :: "'w env \<Rightarrow> article \<Rightarrow> comment \<Rightarrow> string \<Rightarrow> reply_prompt" where
  "buildReplyPrompt E a originalComment reporterReply =
     \<lparr> rp_eraContext = getEraContext (currentYear E) (parseInt E) a,
       rp_emergency = truthy (isEmergencyMode a),
       rp_crazy = truthy (isCrazyMode a),
       rp_fakeNews = truthy (isFakeNews a),
       rp_title = title a,
       rp_commentUsername = username originalComment,
       rp_commentContent = content originalComment,
       rp_commentPlatform = platform originalComment,
       rp_reporterReply = reporterReply \<rparr>"

definition generateReplyReaction_try ::
  "'w env \<Rightarrow> article \<Rightarrow> comment \<Rightarrow> string \<Rightarrow> 'w \<Rightarrow> (jserror + reply list) \<times> event list \<times> 'w"
where
  "generateReplyReaction_try E a originalComment reporterReply w =
     (case retryRequest_default
             (generateContent E (ReplyRequest (buildReplyPrompt E a originalComment reporterReply))) w of
        (Inl error, tr, w') \<Rightarrow> (Inl error, tr, w')
      | (Inr r, tr, w') \<Rightarrow>
          (if truthyStr (responseText r)
           then (case parseReplies E (the (responseText r)) of
                   Inl m \<Rightarrow> Inl (syntaxError m)
                 | Inr v \<Rightarrow> Inr v)
           else Inr [], tr, w'))"

definition generateReplyReaction ::
  "'w env \<Rightarrow> article \<Rightarrow> comment \<Rightarrow> string \<Rightarrow> 'w \<Rightarrow> (jserror + reply list) \<times> event list \<times> 'w"
where
  "generateReplyReaction E a originalComment reporterReply w =
     (case generateReplyReaction_try E a originalComment reporterReply w of
        (Inl e, tr, w') \<Rightarrow> (Inr [], tr, w')
      | (Inr v, tr, w') \<Rightarrow> (Inr v, tr, w'))"

section \<open>The dashboard: filtered comments and handleSubmitReply\<close>

text \<open>The state variables of the component \<open>SimulationDashboard\<close> that the reply flow uses.\<close>

record dashboard =
  localComments :: "comment list"
  replyingTo :: "nat option"
  replyText :: string
  generatingReplyId :: "nat option"
  selectedPlatform :: string

definition filteredComments :: "dashboard \<Rightarrow> comment list" where
  "filteredComments d =
     (if selectedPlatform d = ''ALL'' then localComments d
      else filter (\<lambda>c. platform c = selectedPlatform d) (localComments d))"

text \<open>\<open>Array.prototype.map\<close> with a callback that also takes the index.\<close>

definition mapWithIndex :: "('a \<Rightarrow> nat \<Rightarrow> 'b) \<Rightarrow> 'a list \<Rightarrow> 'b list" where
  "mapWithIndex f xs = map (\<lambda>(i, c). f c i) (enumerate 0 xs)"

text \<open>
  \<open>String.prototype.trim\<close> removes the white space and the line terminators of ECMAScript
  from both ends of a string. Strings are sequences of UTF-8 bytes here, so each of these
  code points is the byte sequence that encodes it: U+0009 to U+000D, U+0020, U+00A0,
  U+1680, U+2000 to U+200A, U+2028, U+2029, U+202F, U+205F, U+3000 and U+FEFF.
\<close>

definition whiteSpace :: "string list" where
  "whiteSpace =
     [[CHR 0x09], [CHR 0x0A], [CHR 0x0B], [CHR 0x0C], [CHR 0x0D], [CHR 0x20],
      [CHR 0xC2, CHR 0xA0],
      [CHR 0xE1, CHR 0x9A, CHR 0x80],
      [CHR 0xE2, CHR 0x80, CHR 0x80], [CHR 0xE2, CHR 0x80, CHR 0x81],
      [CHR 0xE2, CHR 0x80, CHR 0x82], [CHR 0xE2, CHR 0x80, CHR 0x83],
      [CHR 0xE2, CHR 0x80, CHR 0x84], [CHR 0xE2, CHR 0x80, CHR 0x85],
      [CHR 0xE2, CHR 0x80, CHR 0x86], [CHR 0xE2, CHR 0x80, CHR 0x87],
      [CHR 0xE2, CHR 0x80, CHR 0x88], [CHR 0xE2, CHR 0x80, CHR 0x89],
      [CHR 0xE2, CHR 0x80, CHR 0x8A],
      [CHR 0xE2, CHR 0x80, CHR 0xA8], [CHR 0xE2, CHR 0x80, CHR 0xA9],
      [CHR 0xE2, CHR 0x80, CHR 0xAF],
      [CHR 0xE2, CHR 0x81, CHR 0x9F],
      [CHR 0xE3, CHR 0x80, CHR 0x80],
      [CHR 0xEF, CHR 0xBB, CHR 0xBF]]"

text \<open>The white space a string starts with, if any, and the one it ends with.\<close>

definition leadingWhiteSpace :: "string \<Rightarrow> string option" where
  "leadingWhiteSpace s = find (\<lambda>p. startsWith s p) whiteSpace"

definition trailingWhiteSpace :: "string \<Rightarrow> string option" where
  "trailingWhiteSpace s = find (\<lambda>p. startsWith (rev s) (rev p)) whiteSpace"

function trimStart :: "string \<Rightarrow> string" where
  "trimStart s =
     (case leadingWhiteSpace s of
        None \<Rightarrow> s
      | Some p \<Rightarrow> trimStart (drop (length p) s))"
  by pat_completeness auto
termination
proof (relation "measure length")
  show "wf (measure length)" by simp
next
  fix s p :: string
  assume "leadingWhiteSpace s = Some p"
  then have mem: "p \<in> set whiteSpace" and pre: "startsWith s p"
    by (auto simp add: leadingWhiteSpace_def find_Some_iff)
  have "startsWith u v \<Longrightarrow> length v \<le> length u" for u v
    by (induction u v rule: startsWith.induct) auto
  then have le: "length p \<le> length s" using pre by blast
  have pos: "0 < length p" using mem by (auto simp add: whiteSpace_def)
  have "length s - length p < length s" using le pos by linarith
  then show "(drop (length p) s, s) \<in> measure length" by simp
qed

function trimEnd :: "string \<Rightarrow> string" where
  "trimEnd s =
     (case trailingWhiteSpace s of
        None \<Rightarrow> s
      | Some p \<Rightarrow> trimEnd (take (length s - length p) s))"
  by pat_completeness auto
termination
proof (relation "measure length")
  show "wf (measure length)" by simp
next
  fix s p :: string
  assume "trailingWhiteSpace s = Some p"
  then have mem: "p \<in> set whiteSpace" and pre: "startsWith (rev s) (rev p)"
    by (auto simp add: trailingWhiteSpace_def find_Some_iff)
  have "startsWith u v \<Longrightarrow> length v \<le> length u" for u v
    by (induction u v rule: startsWith.induct) auto
  then have "length (rev p) \<le> length (rev s)" using pre by blast
  then have le: "length p \<le> length s" by simp
  have pos: "0 < length p" using mem by (auto simp add: whiteSpace_def)
  have "length s - length p < length s" using le pos by linarith
  then show "(take (length s - length p) s, s) \<in> measure length" by simp
qed

definition trim :: "string \<Rightarrow> string" where
  "trim s = trimEnd (trimStart s)"

text \<open>The default author name of \<^verbatim>\<open>article.author || ...\<close>, two Korean syllables in UTF-8.\<close>

definition defaultAuthor :: string where
  "defaultAuthor = [CHR 0xEA, CHR 0xB8, CHR 0xB0, CHR 0xEC, CHR 0x9E, CHR 0x90]"

definition reporterReplyOf :: "article \<Rightarrow> string \<Rightarrow> reply" where
  "reporterReplyOf a t =
     \<lparr> username = (if author a \<noteq> [] then author a else defaultAuthor),
       content = t, likes = 0 \<rparr>"

text \<open>
  The two \<open>setLocalComments\<close> updates of \<open>handleSubmitReply\<close> are the same function of the
  index and of the replies to add.
\<close>

definition addReplies :: "nat \<Rightarrow> reply list \<Rightarrow> comment list \<Rightarrow> comment list" where
  "addReplies targetCommentIdx rs prev =
     mapWithIndex (\<lambda>c i. if i = targetCommentIdx then c\<lparr>replies := replies c @ rs\<rparr> else c) prev"

text \<open>
  \<open>handleSubmitReply\<close> is asynchronous: it runs to its \<open>await\<close>, is suspended while the
  sub-flow call is pending, and resumes with the outcome of the call. The first function
  is the part before the \<open>await\<close>; it returns the arguments of the call it starts, or
  \<open>None\<close> when it returns early. The second is the part after the \<open>await\<close>, with the
  \<open>catch\<close> and \<open>finally\<close> blocks.
\<close>

definition handleSubmitReply_begin ::
  "article \<Rightarrow> nat \<Rightarrow> comment \<Rightarrow> dashboard \<Rightarrow> dashboard \<times> (comment \<times> string) option" where
  "handleSubmitReply_begin a targetCommentIdx targetComment d =
     (if trim (replyText d) = [] then (d, None)
      else
        let reporterReply = reporterReplyOf a (replyText d);
            reporterReplyText = replyText d
        in (d\<lparr>replyText := [], replyingTo := None,
               generatingReplyId := Some targetCommentIdx,
               localComments := addReplies targetCommentIdx [reporterReply] (localComments d)\<rparr>,
            Some (targetComment, reporterReplyText)))"

definition handleSubmitReply_resume ::
  "nat \<Rightarrow> jserror + reply list \<Rightarrow> dashboard \<Rightarrow> dashboard" where
  "handleSubmitReply_resume targetCommentIdx outcome d =
     (let d1 = (case outcome of
                  Inr aiReplies \<Rightarrow>
                    if length aiReplies > 0
                    then d\<lparr>localComments := addReplies targetCommentIdx aiReplies (localComments d)\<rparr>
                    else d
                | Inl error \<Rightarrow> d)
      in d1\<lparr>generatingReplyId := None\<rparr>)"

text \<open>One call of \<open>handleSubmitReply\<close> with nothing else happening while it is suspended.\<close>

definition handleSubmitReply ::
  "'w env \<Rightarrow> article \<Rightarrow> nat \<Rightarrow> comment \<Rightarrow> dashboard \<Rightarrow> 'w \<Rightarrow> dashboard \<times> 'w" where
  "handleSubmitReply E a targetCommentIdx targetComment d w =
     (case handleSubmitReply_begin a targetCommentIdx targetComment d of
        (d1, None) \<Rightarrow> (d1, w)
      | (d1, Some (c, t)) \<Rightarrow>
          (case generateReplyReaction E a c t w of
             (outcome, tr, w') \<Rightarrow> (handleSubmitReply_resume targetCommentIdx outcome d1, w')))"

text \<open>
  The reply form of a displayed row: \<open>filteredComments.map((comment, idx) => ...)\<close> renders
  the row of \<open>comment\<close> at position \<open>idx\<close> of the filtered list, and its submit button calls
  \<open>handleSubmitReply(idx, comment)\<close>.
\<close>

definition submitRow :: "'w env \<Rightarrow> article \<Rightarrow> nat \<Rightarrow> dashboard \<Rightarrow> 'w \<Rightarrow> dashboard \<times> 'w" where
  "submitRow E a idx d w =
     (if idx < length (filteredComments d) \<and> replyingTo d = Some idx
      then handleSubmitReply E a idx (filteredComments d ! idx) d w
      else (d, w))"

section \<open>The dashboard as a transition system\<close>

text \<open>
  Between the \<open>await\<close> of one \<open>handleSubmitReply\<close> and its resumption the user can act
  again. A session is the dashboard together with the suspended calls: for each one the
  index it was called with and the arguments of its sub-flow call, oldest first. The
  events are the handlers the rows render and the return of a pending sub-flow call.
\<close>

record session =
  dash :: dashboard
  inflight :: "(nat \<times> comment \<times> string) list"

datatype ui_event =
    OpenReply nat
  | TypeReply string
  | CancelReply
  | SelectPlatform string
  | SubmitReply nat
  | Resolve nat "jserror + reply list"

fun step :: "article \<Rightarrow> ui_event \<Rightarrow> session \<Rightarrow> session" where
  "step a (OpenReply idx) s =
     (if idx < length (filteredComments (dash s))
      then s\<lparr>dash := (dash s)\<lparr>replyingTo := Some idx\<rparr>\<rparr> else s)"
| "step a (TypeReply t) s =
     (case replyingTo (dash s) of
        None \<Rightarrow> s
      | Some idx \<Rightarrow>
          if idx < length (filteredComments (dash s))
          then s\<lparr>dash := (dash s)\<lparr>replyText := t\<rparr>\<rparr> else s)"
| "step a CancelReply s =
     (case replyingTo (dash s) of
        None \<Rightarrow> s
      | Some idx \<Rightarrow>
          if idx < length (filteredComments (dash s))
          then s\<lparr>dash := (dash s)\<lparr>replyingTo := None, replyText := []\<rparr>\<rparr> else s)"
| "step a (SelectPlatform p) s =
     (if p = ''ALL'' \<or> p \<in> set (map platform (localComments (dash s)))
      then s\<lparr>dash := (dash s)\<lparr>selectedPlatform := p\<rparr>\<rparr> else s)"
| "step a (SubmitReply idx) s =
     (if idx < length (filteredComments (dash s)) \<and> replyingTo (dash s) = Some idx
      then (case handleSubmitReply_begin a idx (filteredComments (dash s) ! idx) (dash s) of
              (d1, None) \<Rightarrow> s\<lparr>dash := d1\<rparr>
            | (d1, Some (c, t)) \<Rightarrow> s\<lparr>dash := d1, inflight := inflight s @ [(idx, c, t)]\<rparr>)
      else s)"
| "step a (Resolve k outcome) s =
     (if k < length (inflight s)
      then s\<lparr>dash := handleSubmitReply_resume (fst (inflight s ! k)) outcome (dash s),
             inflight := take k (inflight s) @ drop (Suc k) (inflight s)\<rparr>
      else s)"

fun run :: "article \<Rightarrow> ui_event list \<Rightarrow> session \<Rightarrow> session" where
  "run a [] s = s"
| "run a (ev # evs) s = run a evs (step a ev s)"

text \<open>The sub-flow calls in flight for the comment thread addressed by \<open>idx\<close>.\<close>

definition inflightFor :: "nat \<Rightarrow> session \<Rightarrow> nat" where
  "inflightFor idx s = length (filter (\<lambda>p. fst p = idx) (inflight s))"

section \<open>Sample inputs\<close>

text \<open>Sample inputs: an article, a service that always answers with a server error.\<close>

definition exampleArticle :: article where
  "exampleArticle =
     \<lparr> title = ''Title'', category = SOCIETY, content = ''Body'', author = ''Kim'',
       timestamp = ''2026-01-01T00:00:00.000Z'',
       isFakeNews = Some False, isCrazyMode = Some False, isEmergencyMode = Some False,
       isTimeMachineMode = Some False, targetYear = Some ''2026'',
       previousArticleContext = None \<rparr>"

definition serverError :: jserror where
  "serverError =
     \<lparr> name = ''ApiError'', status = Some (JNum 500), code = None,
       message = Some ''Internal error'' \<rparr>"

definition failingEnv :: "nat env" where
  "failingEnv =
     \<lparr> currentYear = 2026,
       parseInt = (\<lambda>s. if s = ''2026'' then Some 2026 else None),
       generateContent = (\<lambda>req n. (Inl serverError, Suc n)),
       parseSimulation = (\<lambda>s. Inl ''Unexpected token''),
       parseReplies = (\<lambda>s. Inl ''Unexpected token'') \<rparr>"

definition exampleApp :: app where
  "exampleApp =
     \<lparr> appState = EDITOR, currentArticle = exampleArticle, result = None, history = [],
       alerts = [] \<rparr>"

text \<open>
  A dashboard with two comments on different platforms; the platform filter selects the
  second one, whose reply form is open with a reply typed in.
\<close>

definition commentA :: comment where
  "commentA =
     \<lparr> username = ''ann'', content = ''first'', likes = 3, sentiment = neutral,
       platform = ''SNS'', replies = [] \<rparr>"

definition commentB :: comment where
  "commentB =
     \<lparr> username = ''bob'', content = ''second'', likes = 5, sentiment = negative,
       platform = ''Portal'', replies = [] \<rparr>"

definition filteredDash :: dashboard where
  "filteredDash =
     \<lparr> localComments = [commentA, commentB], replyingTo = Some 0, replyText = ''thanks'',
       generatingReplyId = None, selectedPlatform = ''Portal'' \<rparr>"

text \<open>A session on the same two comments with no filter, nothing typed, nothing pending.\<close>

definition freshSession :: session where
  "freshSession =
     \<lparr> dash = \<lparr> localComments = [commentA, commentB], replyingTo = None, replyText = [],
                generatingReplyId = None, selectedPlatform = ''ALL'' \<rparr>,
       inflight = [] \<rparr>"

text \<open>
  A reading of decimal digit strings, for \<open>parseInt\<close> on the target years of the sample
  articles; anything else is \<open>NaN\<close>.
\<close>

definition decimalYear :: "string \<Rightarrow> int option" where
  "decimalYear s =
     (if s \<noteq> [] \<and> list_all (\<lambda>c. c \<in> set ''0123456789'') s
      then Some (foldl (\<lambda>n c. 10 * n + (of_char c - 48)) (0::int) s)
      else None)"

definition timeMachineArticle :: "string \<Rightarrow> article" where
  "timeMachineArticle y = exampleArticle\<lparr>isTimeMachineMode := Some True, targetYear := Some y\<rparr>"

text \<open>A service that returns a response without text, and one whose text does not decode.\<close>

definition emptyEnv :: "nat env" where
  "emptyEnv = failingEnv\<lparr>generateContent := (\<lambda>req n. (Inr \<lparr>responseText = None\<rparr>, Suc n))\<rparr>"

definition malformedEnv :: "nat env" where
  "malformedEnv =
     failingEnv\<lparr>generateContent := (\<lambda>req n. (Inr \<lparr>responseText = Some ''{oops''\<rparr>, Suc n))\<rparr>"

text \<open>A service that is rate limited on every call.\<close>

definition rateLimitError :: jserror where
  "rateLimitError =
     \<lparr> name = ''ApiError'', status = None, code = Some (JNum 429),
       message = Some ''Resource exhausted'' \<rparr>"

definition rateLimitedEnv :: "nat env" where
  "rateLimitedEnv = failingEnv\<lparr>generateContent := (\<lambda>req n. (Inl rateLimitError, Suc n))\<rparr>"



section \<open>Properties of the retrying transport\<close>



lemma retry_not_rate_limit:
  "requestFn w = (Inl e, w') \<Longrightarrow> \<not> isRateLimit e \<Longrightarrow>
   retryRequest requestFn retries delay w = (Inl e, [Call], w')"
  by simp

lemma retry_success:
  "requestFn w = (Inr v, w') \<Longrightarrow> retryRequest requestFn retries delay w = (Inr v, [Call], w')"
  by simp

lemma retry_rate_limit:
  "requestFn w = (Inl e, w') \<Longrightarrow> isRateLimit e \<Longrightarrow> 0 < retries \<Longrightarrow>
   retryRequest requestFn retries delay w =
     (case retryRequest requestFn (retries - 1) (delay * 2) w' of
        (r, tr, w'') \<Rightarrow> (r, Call # Wait delay # tr, w''))"
  by simp

lemma retry_exhausted:
  "requestFn w = (Inl e, w') \<Longrightarrow> retryRequest requestFn 0 delay w = (Inl e, [Call], w')"
  by simp


declare retryRequest.simps [simp del]


text \<open>The transport on the sample services.\<close>

lemma serverError_not_rate_limit: "\<not> isRateLimit serverError"
  by (simp add: isRateLimit_def serverError_def)

lemma failingEnv_retry:
  "retryRequest_default (generateContent failingEnv req) n = (Inl serverError, [Call], Suc n)"
  unfolding retryRequest_default_def
  by (rule retry_not_rate_limit) (simp_all add: failingEnv_def serverError_not_rate_limit)

lemma retry_always_rate_limited:
  assumes f: "\<And>w. requestFn w = (Inl e, nxt w)" and rl: "isRateLimit e"
  shows "retryRequest requestFn 3 2000 w =
           (Inl e, [Call, Wait 2000, Call, Wait 4000, Call, Wait 8000, Call],
            nxt (nxt (nxt (nxt w))))"
proof -
  have r0: "retryRequest requestFn 0 16000 (nxt (nxt (nxt w))) =
              (Inl e, [Call], nxt (nxt (nxt (nxt w))))"
    using f by (simp add: retry_exhausted)
  have r1: "retryRequest requestFn 1 8000 (nxt (nxt w)) =
              (Inl e, [Call, Wait 8000, Call], nxt (nxt (nxt (nxt w))))"
    using f[of "nxt (nxt w)"] rl r0 by (simp add: retry_rate_limit)
  have r2: "retryRequest requestFn 2 4000 (nxt w) =
              (Inl e, [Call, Wait 4000, Call, Wait 8000, Call], nxt (nxt (nxt (nxt w))))"
    using f[of "nxt w"] rl r1 by (simp add: retry_rate_limit)
  show ?thesis
    using f[of w] rl r2 by (simp add: retry_rate_limit)
qed

lemma rateLimitError_rate_limit: "isRateLimit rateLimitError"
  by (simp add: isRateLimit_def rateLimitError_def)

lemma rateLimitedEnv_retry:
  "retryRequest_default (generateContent rateLimitedEnv req) n =
     (Inl rateLimitError, [Call, Wait 2000, Call, Wait 4000, Call, Wait 8000, Call],
      Suc (Suc (Suc (Suc n))))"
  unfolding retryRequest_default_def
  by (rule retry_always_rate_limited)
     (simp_all add: rateLimitedEnv_def failingEnv_def rateLimitError_rate_limit)

lemma emptyEnv_retry:
  "retryRequest_default (generateContent emptyEnv req) n =
     (Inr \<lparr>responseText = None\<rparr>, [Call], Suc n)"
  unfolding retryRequest_default_def
  by (rule retry_success) (simp add: emptyEnv_def failingEnv_def)

lemma malformedEnv_retry:
  "retryRequest_default (generateContent malformedEnv req) n =
     (Inr \<lparr>responseText = Some ''{oops''\<rparr>, [Call], Suc n)"
  unfolding retryRequest_default_def
  by (rule retry_success) (simp add: malformedEnv_def failingEnv_def)

lemma malformedEnv_parse:
  "parseReplies malformedEnv ''{oops'' = Inl ''Unexpected token''"
  "parseSimulation malformedEnv ''{oops'' = Inl ''Unexpected token''"
  by (simp_all add: malformedEnv_def failingEnv_def)


text \<open>
  C5. A unit of work that fails with a rate-limit signal exactly twice and then succeeds:
  the transport returns the success, after three calls, having waited 2000 ms before the
  second and 4000 ms before the third. A unit of work that fails with a rate-limit signal
  every time: the transport fails with a rate-limit failure after four calls (the first
  attempt and the three retries of the budget), having waited 2000, 4000 and 8000 ms.
\<close>

theorem retry_backoff_schedule:
  "(requestFn w0 = (Inl e1, w1) \<and> isRateLimit e1 \<and>
    requestFn w1 = (Inl e2, w2) \<and> isRateLimit e2 \<and>
    requestFn w2 = (Inr v, w3)
    \<longrightarrow> retryRequest_default requestFn w0 =
          (Inr v, [Call, Wait 2000, Call, Wait 4000, Call], w3))
   \<and>
   ((\<forall>w. \<exists>e w'. requestFn w = (Inl e, w') \<and> isRateLimit e)
    \<longrightarrow> (\<exists>e w'. retryRequest_default requestFn w0 =
                   (Inl e, [Call, Wait 2000, Call, Wait 4000, Call, Wait 8000, Call], w') \<and>
                 isRateLimit e))"
proof (intro conjI impI)
  assume h: "requestFn w0 = (Inl e1, w1) \<and> isRateLimit e1 \<and>
    requestFn w1 = (Inl e2, w2) \<and> isRateLimit e2 \<and> requestFn w2 = (Inr v, w3)"
  have third: "retryRequest requestFn 1 8000 w2 = (Inr v, [Call], w3)"
    using h by (simp add: retry_success)
  have second: "retryRequest requestFn 2 4000 w1 = (Inr v, [Call, Wait 4000, Call], w3)"
    using h third by (simp add: retry_rate_limit)
  have first: "retryRequest requestFn 3 2000 w0 =
      (Inr v, [Call, Wait 2000, Call, Wait 4000, Call], w3)"
    using h second by (simp add: retry_rate_limit)
  then show "retryRequest_default requestFn w0 =
      (Inr v, [Call, Wait 2000, Call, Wait 4000, Call], w3)"
    by (simp add: retryRequest_default_def)
next
  assume h: "\<forall>w. \<exists>e w'. requestFn w = (Inl e, w') \<and> isRateLimit e"
  obtain e1 w1 where a1: "requestFn w0 = (Inl e1, w1)" "isRateLimit e1" using h by blast
  obtain e2 w2 where a2: "requestFn w1 = (Inl e2, w2)" "isRateLimit e2" using h by blast
  obtain e3 w3 where a3: "requestFn w2 = (Inl e3, w3)" "isRateLimit e3" using h by blast
  obtain e4 w4 where a4: "requestFn w3 = (Inl e4, w4)" "isRateLimit e4" using h by blast
  have fourth: "retryRequest requestFn 0 16000 w3 = (Inl e4, [Call], w4)"
    using a4 by (simp add: retry_exhausted)
  have third: "retryRequest requestFn 1 8000 w2 = (Inl e4, [Call, Wait 8000, Call], w4)"
    using a3 fourth by (simp add: retry_rate_limit)
  have second: "retryRequest requestFn 2 4000 w1 =
      (Inl e4, [Call, Wait 4000, Call, Wait 8000, Call], w4)"
    using a2 third by (simp add: retry_rate_limit)
  have first: "retryRequest requestFn 3 2000 w0 =
      (Inl e4, [Call, Wait 2000, Call, Wait 4000, Call, Wait 8000, Call], w4)"
    using a1 second by (simp add: retry_rate_limit)
  then show "\<exists>e w'. retryRequest_default requestFn w0 =
      (Inl e, [Call, Wait 2000, Call, Wait 4000, Call, Wait 8000, Call], w') \<and> isRateLimit e"
    using a4 by (simp add: retryRequest_default_def)
qed

theorem retry_backoff_schedule_witness:
  "retryRequest_default
     (\<lambda>n::nat. (if n < 2
                 then Inl \<lparr>name = ''ApiError'', status = Some (JNum 429), code = None, message = None\<rparr>
                 else Inr ''ok'', Suc n)) 0 =
     (Inr ''ok'', [Call, Wait 2000, Call, Wait 4000, Call], 3)
   \<and>
   (\<exists>e w'. retryRequest_default
       (\<lambda>n::nat. (Inl \<lparr>name = ''ApiError'', status = None, code = None,
                          message = Some ''got status: 429 Too Many Requests''\<rparr> :: jserror + string,
                  Suc n)) 0 =
       (Inl e, [Call, Wait 2000, Call, Wait 4000, Call, Wait 8000, Call], w') \<and> isRateLimit e)"
proof
  let ?e = "\<lparr>name = ''ApiError'', status = Some (JNum 429), code = None, message = None\<rparr>"
  have rl: "isRateLimit ?e" by (simp add: isRateLimit_def)
  show "retryRequest_default
     (\<lambda>n::nat. (if n < 2 then Inl ?e else Inr ''ok'', Suc n)) 0 =
     (Inr ''ok'', [Call, Wait 2000, Call, Wait 4000, Call], 3)"
    using rl retry_backoff_schedule
      [where requestFn = "\<lambda>n::nat. (if n < 2 then Inl ?e else Inr ''ok'', Suc n)"
         and ?w0.0 = 0 and ?w1.0 = 1 and ?w2.0 = 2 and ?w3.0 = 3
         and ?e1.0 = ?e and ?e2.0 = ?e and v = "''ok''"]
    by (simp add: numeral_3_eq_3)
next
  let ?e = "\<lparr>name = ''ApiError'', status = None, code = None,
              message = Some ''got status: 429 Too Many Requests''\<rparr>"
  have rl: "isRateLimit ?e" by (simp add: isRateLimit_def)
  show "\<exists>e w'. retryRequest_default
       (\<lambda>n::nat. (Inl ?e :: jserror + string, Suc n)) 0 =
       (Inl e, [Call, Wait 2000, Call, Wait 4000, Call, Wait 8000, Call], w') \<and> isRateLimit e"
    using rl retry_backoff_schedule
      [where requestFn = "\<lambda>n::nat. (Inl ?e :: jserror + string, Suc n)" and ?w0.0 = 0]
    by simp
qed



section \<open>Properties of the mode composer\<close>

lemma flag_UNIV: "(UNIV :: flag set) = {Emergency, Crazy, FakeNews}"
proof -
  have "x \<in> {Emergency, Crazy, FakeNews}" for x :: flag by (cases x) simp_all
  then show ?thesis by blast
qed

lemma set_precedence: "set precedence = UNIV"
  by (simp add: precedence_def flag_UNIV)

lemma active_set: "{f. active a f} = set (filter (active a) precedence)"
  by (simp add: set_precedence)

lemma active_card: "card {f. active a f} = length (filter (active a) precedence)"
proof -
  have "distinct (filter (active a) precedence)" by (simp add: precedence_def)
  then show ?thesis using active_set distinct_card by metis
qed

lemma modeInstructions_filter:
  "modeInstructions a =
     (if filter (active a) precedence = [] then [NormalBlock]
      else map blockOf (filter (active a) precedence))"
  by (simp add: modeInstructions_def precedence_def)

text \<open>
  C7. For every article, with the set of its active flags among emergency, crazy and
  fakeNews: if the set is empty the mode composer produces the single normal-mode block;
  otherwise it produces the blocks of the active flags, one each, in the order emergency,
  crazy, fakeNews, so as many blocks as there are active flags. The order in which the
  caller set the flags does not change the result.
\<close>

theorem mode_composer_blocks:
  "modeInstructions a =
     (if {f. active a f} = {} then [NormalBlock]
      else map blockOf (filter (active a) precedence))
   \<and> length (modeInstructions a) =
     (if {f. active a f} = {} then 1 else card {f. active a f})
   \<and> modeInstructions (a\<lparr>isFakeNews := f, isCrazyMode := c, isEmergencyMode := e\<rparr>) =
     modeInstructions (a\<lparr>isEmergencyMode := e, isCrazyMode := c, isFakeNews := f\<rparr>)"
proof (intro conjI)
  have emp: "{f. active a f} = {} \<longleftrightarrow> filter (active a) precedence = []"
    by (simp add: filter_empty_conv set_precedence)
  show "modeInstructions a =
     (if {f. active a f} = {} then [NormalBlock]
      else map blockOf (filter (active a) precedence))"
    using emp modeInstructions_filter[of a] by simp
  show "length (modeInstructions a) =
     (if {f. active a f} = {} then 1 else card {f. active a f})"
    using emp modeInstructions_filter[of a] active_card[of a] by simp
  show "modeInstructions (a\<lparr>isFakeNews := f, isCrazyMode := c, isEmergencyMode := e\<rparr>) =
     modeInstructions (a\<lparr>isEmergencyMode := e, isCrazyMode := c, isFakeNews := f\<rparr>)"
    by (simp add: modeInstructions_def)
qed

theorem mode_composer_blocks_witness:
  "modeInstructions
     \<lparr> title = ''t'', category = SOCIETY, content = ''c'', author = ''a'', timestamp = ''now'',
       isFakeNews = Some False, isCrazyMode = Some True, isEmergencyMode = Some True,
       isTimeMachineMode = None, targetYear = None, previousArticleContext = None \<rparr>
     = [EmergencyBlock, CrazyBlock]
   \<and> modeInstructions
     \<lparr> title = ''t'', category = SOCIETY, content = ''c'', author = ''a'', timestamp = ''now'',
       isFakeNews = Some False, isCrazyMode = None, isEmergencyMode = Some False,
       isTimeMachineMode = None, targetYear = None, previousArticleContext = None \<rparr>
     = [NormalBlock]"
proof
  let ?a = "\<lparr> title = ''t'', category = SOCIETY, content = ''c'', author = ''a'', timestamp = ''now'',
       isFakeNews = Some False, isCrazyMode = Some True, isEmergencyMode = Some True,
       isTimeMachineMode = None, targetYear = None, previousArticleContext = None \<rparr>"
  have "active ?a Emergency" by (simp add: truthy_def)
  then have ne: "{f. active ?a f} \<noteq> {}" by blast
  have "modeInstructions ?a = map blockOf (filter (active ?a) precedence)"
    using mode_composer_blocks[of ?a] ne by presburger
  then show "modeInstructions ?a = [EmergencyBlock, CrazyBlock]"
    by (simp add: precedence_def truthy_def)
next
  let ?b = "\<lparr> title = ''t'', category = SOCIETY, content = ''c'', author = ''a'', timestamp = ''now'',
       isFakeNews = Some False, isCrazyMode = None, isEmergencyMode = Some False,
       isTimeMachineMode = None, targetYear = None, previousArticleContext = None \<rparr>"
  have "\<not> active ?b f" for f by (cases f) (simp_all add: truthy_def)
  then have e: "{f. active ?b f} = {}" by blast
  show "modeInstructions ?b = [NormalBlock]"
    using mode_composer_blocks[of ?b] e by presburger
qed

text \<open>
  C10. The mode instructions depend on the flags emergency, crazy and fakeNews only:
  changing the time-machine flag or the target year changes nothing, two articles with
  the same three flags get the same blocks, and an article with none of the three active
  (whatever its time-machine flag) gets the single normal-mode block.
\<close>

theorem modes_ignore_time_machine:
  "modeInstructions (a\<lparr>isTimeMachineMode := t, targetYear := y\<rparr>) = modeInstructions a
   \<and> (truthy (isEmergencyMode a) = truthy (isEmergencyMode b) \<and>
      truthy (isCrazyMode a) = truthy (isCrazyMode b) \<and>
      truthy (isFakeNews a) = truthy (isFakeNews b)
      \<longrightarrow> modeInstructions a = modeInstructions b)
   \<and> (\<not> truthy (isEmergencyMode a) \<and> \<not> truthy (isCrazyMode a) \<and> \<not> truthy (isFakeNews a)
      \<longrightarrow> modeInstructions a = [NormalBlock])"
  by (simp add: modeInstructions_def)

theorem modes_ignore_time_machine_witness:
  "modeInstructions
     \<lparr> title = ''t'', category = SOCIETY, content = ''c'', author = ''a'', timestamp = ''now'',
       isFakeNews = Some False, isCrazyMode = Some False, isEmergencyMode = Some False,
       isTimeMachineMode = Some True, targetYear = Some ''1985'',
       previousArticleContext = None \<rparr>
     = [NormalBlock]"
proof -
  let ?a = "\<lparr> title = ''t'', category = SOCIETY, content = ''c'', author = ''a'', timestamp = ''now'',
       isFakeNews = Some False, isCrazyMode = Some False, isEmergencyMode = Some False,
       isTimeMachineMode = Some True, targetYear = Some ''1985'',
       previousArticleContext = None \<rparr>"
  have h: "\<not> truthy (isEmergencyMode ?a) \<and> \<not> truthy (isCrazyMode ?a) \<and> \<not> truthy (isFakeNews ?a)"
    by (simp add: truthy_def)
  from modes_ignore_time_machine[where a = ?a] h show ?thesis by blast
qed

section \<open>Properties of the era context\<close>

lemma era_agree: "getEraContext cy pI a = eraContextFull cy pI a"
  by (cases "effectiveYear cy pI a")
     (auto simp add: getEraContext_def eraContextFull_def js_lt_def js_ge_def js_gt_def Let_def)

lemma era_flag_on:
  "truthy (isTimeMachineMode a) \<Longrightarrow> effectiveYear cy pI a = Some y \<Longrightarrow>
   eraContextFull cy pI a =
     Era (if y < 1990 then PrintBroadcast
          else if y < 2000 then PCCommunication
          else if y < 2010 then EarlySocialWeb
          else if y > cy + 5 then FutureEra else DefaultEra) (Some y)"
  by (simp add: eraContextFull_def js_lt_def js_ge_def js_gt_def)

text \<open>
  C8. The era context is the same function of the effective year and of the time-machine
  flag in \<open>getEraContext\<close> and in \<open>analyzeArticle\<close>, defined for every year and for a
  target year that does not parse. With the flag off it is the present-day context. With
  the flag on: a year before 1990 selects the print and broadcast bracket, 1990 to 1999
  the PC-communication bracket, 2000 to 2009 the early social-web bracket, a later year
  above the clock's year plus 5 the future bracket, and every other year, the clock's
  year plus 5 included, the default bracket. The brackets are tested in this order, so
  for a clock of 2005 or later "above the clock's year plus 5" alone selects the future
  bracket. The boundary years 1990 and 2000 belong to the bracket that starts at them.
\<close>

theorem era_bracket_selection:
  "getEraContext cy pI a = eraContextFull cy pI a
   \<and> (truthy (isTimeMachineMode a) = truthy (isTimeMachineMode b) \<and>
      effectiveYear cy pI a = effectiveYear cy pI' b
        \<longrightarrow> eraContextFull cy pI a = eraContextFull cy pI' b)
   \<and> (\<not> truthy (isTimeMachineMode a) \<longrightarrow> eraContextFull cy pI a = Present)
   \<and> (truthy (isTimeMachineMode a) \<and> effectiveYear cy pI a = None
        \<longrightarrow> eraContextFull cy pI a = Era DefaultEra None)
   \<and> (truthy (isTimeMachineMode a) \<and> effectiveYear cy pI a = Some y \<longrightarrow>
        (y < 1990 \<longrightarrow> eraContextFull cy pI a = Era PrintBroadcast (Some y)) \<and>
        (1990 \<le> y \<and> y \<le> 1999 \<longrightarrow> eraContextFull cy pI a = Era PCCommunication (Some y)) \<and>
        (2000 \<le> y \<and> y \<le> 2009 \<longrightarrow> eraContextFull cy pI a = Era EarlySocialWeb (Some y)) \<and>
        (2010 \<le> y \<and> cy + 5 < y \<longrightarrow> eraContextFull cy pI a = Era FutureEra (Some y)) \<and>
        (2010 \<le> y \<and> y \<le> cy + 5 \<longrightarrow> eraContextFull cy pI a = Era DefaultEra (Some y)) \<and>
        (2005 \<le> cy \<and> cy + 5 < y \<longrightarrow> eraContextFull cy pI a = Era FutureEra (Some y)) \<and>
        (2005 \<le> cy \<and> y = cy + 5 \<longrightarrow> eraContextFull cy pI a = Era DefaultEra (Some y)))"
proof (intro conjI impI)
  show "getEraContext cy pI a = eraContextFull cy pI a" by (rule era_agree)
next
  assume "truthy (isTimeMachineMode a) = truthy (isTimeMachineMode b) \<and>
      effectiveYear cy pI a = effectiveYear cy pI' b"
  then show "eraContextFull cy pI a = eraContextFull cy pI' b"
    by (simp add: eraContextFull_def)
next
  assume "\<not> truthy (isTimeMachineMode a)"
  then show "eraContextFull cy pI a = Present" by (simp add: eraContextFull_def)
next
  assume "truthy (isTimeMachineMode a) \<and> effectiveYear cy pI a = None"
  then show "eraContextFull cy pI a = Era DefaultEra None"
    by (simp add: eraContextFull_def js_lt_def js_ge_def js_gt_def)
next
  assume h: "truthy (isTimeMachineMode a) \<and> effectiveYear cy pI a = Some y"
  note sel = era_flag_on[of a cy pI y]
  { assume "y < 1990"
    then show "eraContextFull cy pI a = Era PrintBroadcast (Some y)" using h sel by simp }
  { assume "1990 \<le> y \<and> y \<le> 1999"
    then show "eraContextFull cy pI a = Era PCCommunication (Some y)" using h sel by simp }
  { assume "2000 \<le> y \<and> y \<le> 2009"
    then show "eraContextFull cy pI a = Era EarlySocialWeb (Some y)" using h sel by simp }
  { assume "2010 \<le> y \<and> cy + 5 < y"
    then show "eraContextFull cy pI a = Era FutureEra (Some y)" using h sel by simp }
  { assume "2010 \<le> y \<and> y \<le> cy + 5"
    then show "eraContextFull cy pI a = Era DefaultEra (Some y)" using h sel by simp }
  { assume "2005 \<le> cy \<and> cy + 5 < y"
    then show "eraContextFull cy pI a = Era FutureEra (Some y)" using h sel by simp }
  { assume "2005 \<le> cy \<and> y = cy + 5"
    then show "eraContextFull cy pI a = Era DefaultEra (Some y)" using h sel by simp }
qed

theorem era_bracket_selection_witness:
  "eraContextFull 2026 decimalYear (timeMachineArticle ''1989'') = Era PrintBroadcast (Some 1989)
   \<and> eraContextFull 2026 decimalYear (timeMachineArticle ''1990'') = Era PCCommunication (Some 1990)
   \<and> eraContextFull 2026 decimalYear (timeMachineArticle ''1999'') = Era PCCommunication (Some 1999)
   \<and> eraContextFull 2026 decimalYear (timeMachineArticle ''2000'') = Era EarlySocialWeb (Some 2000)
   \<and> eraContextFull 2026 decimalYear (timeMachineArticle ''2009'') = Era EarlySocialWeb (Some 2009)
   \<and> eraContextFull 2026 decimalYear (timeMachineArticle ''2010'') = Era DefaultEra (Some 2010)
   \<and> eraContextFull 2026 decimalYear (timeMachineArticle ''2031'') = Era DefaultEra (Some 2031)
   \<and> eraContextFull 2026 decimalYear (timeMachineArticle ''2032'') = Era FutureEra (Some 2032)
   \<and> eraContextFull 2026 decimalYear (timeMachineArticle ''soon'') = Era DefaultEra None
   \<and> eraContextFull 2026 decimalYear exampleArticle = Present
   \<and> getEraContext 2026 decimalYear (timeMachineArticle ''2000'') = Era EarlySocialWeb (Some 2000)"
proof -
  have tm: "truthy (isTimeMachineMode (timeMachineArticle s))" for s
    by (simp add: timeMachineArticle_def truthy_def)
  have ey: "effectiveYear 2026 decimalYear (timeMachineArticle s) = decimalYear s"
    if "s \<noteq> []" for s
    using that by (simp add: effectiveYear_def timeMachineArticle_def truthy_def truthyStr_def)
  have off: "\<not> truthy (isTimeMachineMode exampleArticle)"
    by (simp add: exampleArticle_def truthy_def)
  note sel = era_bracket_selection[where cy = 2026 and pI = decimalYear and b = exampleArticle
                                      and pI' = decimalYear]
  have y1989: "effectiveYear 2026 decimalYear (timeMachineArticle ''1989'') = Some 1989"
    by (simp add: ey decimalYear_def)
  have y1990: "effectiveYear 2026 decimalYear (timeMachineArticle ''1990'') = Some 1990"
    by (simp add: ey decimalYear_def)
  have y1999: "effectiveYear 2026 decimalYear (timeMachineArticle ''1999'') = Some 1999"
    by (simp add: ey decimalYear_def)
  have y2000: "effectiveYear 2026 decimalYear (timeMachineArticle ''2000'') = Some 2000"
    by (simp add: ey decimalYear_def)
  have y2009: "effectiveYear 2026 decimalYear (timeMachineArticle ''2009'') = Some 2009"
    by (simp add: ey decimalYear_def)
  have y2010: "effectiveYear 2026 decimalYear (timeMachineArticle ''2010'') = Some 2010"
    by (simp add: ey decimalYear_def)
  have y2031: "effectiveYear 2026 decimalYear (timeMachineArticle ''2031'') = Some 2031"
    by (simp add: ey decimalYear_def)
  have y2032: "effectiveYear 2026 decimalYear (timeMachineArticle ''2032'') = Some 2032"
    by (simp add: ey decimalYear_def)
  have ynan: "effectiveYear 2026 decimalYear (timeMachineArticle ''soon'') = None"
    by (simp add: ey decimalYear_def)
  have c1: "eraContextFull 2026 decimalYear (timeMachineArticle ''1989'') = Era PrintBroadcast (Some 1989)"
    using sel[where a = "timeMachineArticle ''1989''" and y = 1989] tm y1989 by simp
  have c2: "eraContextFull 2026 decimalYear (timeMachineArticle ''1990'') = Era PCCommunication (Some 1990)"
    using sel[where a = "timeMachineArticle ''1990''" and y = 1990] tm y1990 by simp
  have c3: "eraContextFull 2026 decimalYear (timeMachineArticle ''1999'') = Era PCCommunication (Some 1999)"
    using sel[where a = "timeMachineArticle ''1999''" and y = 1999] tm y1999 by simp
  have c4: "eraContextFull 2026 decimalYear (timeMachineArticle ''2000'') = Era EarlySocialWeb (Some 2000)"
    using sel[where a = "timeMachineArticle ''2000''" and y = 2000] tm y2000 by simp
  have c5: "eraContextFull 2026 decimalYear (timeMachineArticle ''2009'') = Era EarlySocialWeb (Some 2009)"
    using sel[where a = "timeMachineArticle ''2009''" and y = 2009] tm y2009 by simp
  have c6: "eraContextFull 2026 decimalYear (timeMachineArticle ''2010'') = Era DefaultEra (Some 2010)"
    using sel[where a = "timeMachineArticle ''2010''" and y = 2010] tm y2010 by simp
  have c7: "eraContextFull 2026 decimalYear (timeMachineArticle ''2031'') = Era DefaultEra (Some 2031)"
    using sel[where a = "timeMachineArticle ''2031''" and y = 2031] tm y2031 by simp
  have c8: "eraContextFull 2026 decimalYear (timeMachineArticle ''2032'') = Era FutureEra (Some 2032)"
    using sel[where a = "timeMachineArticle ''2032''" and y = 2032] tm y2032 by simp
  have c9: "eraContextFull 2026 decimalYear (timeMachineArticle ''soon'') = Era DefaultEra None"
    using sel[where a = "timeMachineArticle ''soon''"] tm ynan by simp
  have c10: "eraContextFull 2026 decimalYear exampleArticle = Present"
    using sel[where a = exampleArticle] off by simp
  have c11: "getEraContext 2026 decimalYear (timeMachineArticle ''2000'') = Era EarlySocialWeb (Some 2000)"
    using sel[where a = "timeMachineArticle ''2000''" and y = 2000] c4 by simp
  show ?thesis using c1 c2 c3 c4 c5 c6 c7 c8 c9 c10 c11 by blast
qed

section \<open>Properties of the two flows\<close>

lemma analyzeArticle_cases:
  "analyzeArticle E a w =
     (case retryRequest_default (generateContent E (SimulationRequest (buildPrompt E a))) w of
        (Inl e, tr, w') \<Rightarrow> (Inr fallbackResult, tr, w')
      | (Inr r, tr, w') \<Rightarrow>
          (case validateSimulation E r of
             Inl e \<Rightarrow> (Inr fallbackResult, tr, w')
           | Inr v \<Rightarrow> (Inr v, tr, w')))"
  by (simp add: analyzeArticle_def analyzeArticle_try_def split: prod.splits sum.splits)

lemma analyzeArticle_total: "\<exists>v tr w'. analyzeArticle E a w = (Inr v, tr, w')"
  by (simp add: analyzeArticle_cases split: prod.splits sum.splits)

lemma handlePublish_fallback:
  "fst (analyzeArticle E (currentArticle s) w) = Inr fallbackResult \<Longrightarrow>
   fst (handlePublish E s w) =
     s\<lparr>appState := RESULT, result := Some fallbackResult,
       history := (currentArticle s, fallbackResult) # history s\<rparr>"
  by (cases "analyzeArticle E (currentArticle s) w") (simp add: handlePublish_def)

lemma generateReplyReaction_cases:
  "generateReplyReaction E a c t w =
     (case retryRequest_default (generateContent E (ReplyRequest (buildReplyPrompt E a c t))) w of
        (Inl e, tr, w') \<Rightarrow> (Inr [], tr, w')
      | (Inr r, tr, w') \<Rightarrow>
          (if truthyStr (responseText r)
           then (case parseReplies E (the (responseText r)) of
                   Inl m \<Rightarrow> (Inr [], tr, w')
                 | Inr v \<Rightarrow> (Inr v, tr, w'))
           else (Inr [], tr, w')))"
  by (simp add: generateReplyReaction_def generateReplyReaction_try_def
           split: prod.splits sum.splits)

text \<open>
  C9. The reply-reaction sub-flow never propagates an error: \<open>generateReplyReaction\<close>
  always returns a sequence of replies, and the sequence is empty when the transport
  fails (a failure that is not retried, or rate limiting that outlasts the retries), when
  the response has no text, and when the text does not decode.
\<close>

theorem reply_reaction_never_fails:
  "(\<exists>rs tr w'. generateReplyReaction E a c t w = (Inr rs, tr, w'))
   \<and> (fst (retryRequest_default
              (generateContent E (ReplyRequest (buildReplyPrompt E a c t))) w) = Inl e
        \<longrightarrow> fst (generateReplyReaction E a c t w) = Inr [])
   \<and> (fst (retryRequest_default
              (generateContent E (ReplyRequest (buildReplyPrompt E a c t))) w) = Inr r \<and>
      (responseText r = None \<or> responseText r = Some [])
        \<longrightarrow> fst (generateReplyReaction E a c t w) = Inr [])
   \<and> (fst (retryRequest_default
              (generateContent E (ReplyRequest (buildReplyPrompt E a c t))) w) = Inr r \<and>
      responseText r = Some payload \<and> payload \<noteq> [] \<and> parseReplies E payload = Inl m
        \<longrightarrow> fst (generateReplyReaction E a c t w) = Inr [])"
proof (intro conjI impI)
  show "\<exists>rs tr w'. generateReplyReaction E a c t w = (Inr rs, tr, w')"
    by (simp add: generateReplyReaction_cases split: prod.splits sum.splits)
next
  assume "fst (retryRequest_default
              (generateContent E (ReplyRequest (buildReplyPrompt E a c t))) w) = Inl e"
  then show "fst (generateReplyReaction E a c t w) = Inr []"
    by (auto simp add: generateReplyReaction_cases split: prod.splits sum.splits)
next
  assume "fst (retryRequest_default
              (generateContent E (ReplyRequest (buildReplyPrompt E a c t))) w) = Inr r \<and>
      (responseText r = None \<or> responseText r = Some [])"
  then show "fst (generateReplyReaction E a c t w) = Inr []"
    by (auto simp add: generateReplyReaction_cases truthyStr_def split: prod.splits sum.splits)
next
  assume "fst (retryRequest_default
              (generateContent E (ReplyRequest (buildReplyPrompt E a c t))) w) = Inr r \<and>
      responseText r = Some payload \<and> payload \<noteq> [] \<and> parseReplies E payload = Inl m"
  then show "fst (generateReplyReaction E a c t w) = Inr []"
    by (auto simp add: generateReplyReaction_cases truthyStr_def split: prod.splits sum.splits)
qed

theorem reply_reaction_never_fails_witness:
  "fst (generateReplyReaction failingEnv exampleArticle commentA ''thanks'' 0) = Inr []
   \<and> fst (generateReplyReaction rateLimitedEnv exampleArticle commentA ''thanks'' 0) = Inr []
   \<and> fst (generateReplyReaction emptyEnv exampleArticle commentA ''thanks'' 0) = Inr []
   \<and> fst (generateReplyReaction malformedEnv exampleArticle commentA ''thanks'' 0) = Inr []"
proof (intro conjI)
  have "fst (retryRequest_default
          (generateContent failingEnv
             (ReplyRequest (buildReplyPrompt failingEnv exampleArticle commentA ''thanks''))) 0)
        = Inl serverError"
    by (simp add: failingEnv_retry)
  with reply_reaction_never_fails
         [where E = failingEnv and a = exampleArticle and c = commentA and t = "''thanks''"
            and w = 0 and e = serverError]
  show "fst (generateReplyReaction failingEnv exampleArticle commentA ''thanks'' 0) = Inr []"
    by blast
next
  have "fst (retryRequest_default
          (generateContent rateLimitedEnv
             (ReplyRequest (buildReplyPrompt rateLimitedEnv exampleArticle commentA ''thanks''))) 0)
        = Inl rateLimitError"
    by (simp add: rateLimitedEnv_retry)
  with reply_reaction_never_fails
         [where E = rateLimitedEnv and a = exampleArticle and c = commentA and t = "''thanks''"
            and w = 0 and e = rateLimitError]
  show "fst (generateReplyReaction rateLimitedEnv exampleArticle commentA ''thanks'' 0) = Inr []"
    by blast
next
  have "fst (retryRequest_default
          (generateContent emptyEnv
             (ReplyRequest (buildReplyPrompt emptyEnv exampleArticle commentA ''thanks''))) 0)
        = Inr \<lparr>responseText = None\<rparr>"
    by (simp add: emptyEnv_retry)
  with reply_reaction_never_fails
         [where E = emptyEnv and a = exampleArticle and c = commentA and t = "''thanks''"
            and w = 0 and r = "\<lparr>responseText = None\<rparr>"]
  show "fst (generateReplyReaction emptyEnv exampleArticle commentA ''thanks'' 0) = Inr []"
    by simp
next
  have "fst (retryRequest_default
          (generateContent malformedEnv
             (ReplyRequest (buildReplyPrompt malformedEnv exampleArticle commentA ''thanks''))) 0)
        = Inr \<lparr>responseText = Some ''{oops''\<rparr>"
    by (simp add: malformedEnv_retry)
  with reply_reaction_never_fails
         [where E = malformedEnv and a = exampleArticle and c = commentA and t = "''thanks''"
            and w = 0 and r = "\<lparr>responseText = Some ''{oops''\<rparr>" and payload = "''{oops''"
            and m = "''Unexpected token''"]
       malformedEnv_parse(1)
  show "fst (generateReplyReaction malformedEnv exampleArticle commentA ''thanks'' 0) = Inr []"
    by simp
qed

text \<open>
  C4. The validation of the response in \<open>analyzeArticle\<close>: a response whose text is
  absent (or empty) fails with the error "No response text generated"; a response whose
  text is present and does not decode fails with the \<open>SyntaxError\<close> of \<open>JSON.parse\<close>;
  the two errors are different, so the code that catches them can tell "the service
  returned nothing" from "the service returned malformed data". Text that decodes is
  returned as the result.
\<close>

theorem validator_empty_versus_malformed:
  "(responseText r = None \<or> responseText r = Some []
      \<longrightarrow> validateSimulation E r = Inl noResponseText)
   \<and> (responseText r = Some t \<and> t \<noteq> [] \<and> parseSimulation E t = Inl m
      \<longrightarrow> validateSimulation E r = Inl (syntaxError m))
   \<and> (responseText r = Some t \<and> t \<noteq> [] \<and> parseSimulation E t = Inr v
      \<longrightarrow> validateSimulation E r = Inr v)
   \<and> noResponseText \<noteq> syntaxError m'"
  by (auto simp add: validateSimulation_def truthyStr_def noResponseText_def syntaxError_def)

theorem validator_empty_versus_malformed_witness:
  "validateSimulation failingEnv \<lparr>responseText = None\<rparr> = Inl noResponseText
   \<and> validateSimulation failingEnv \<lparr>responseText = Some ''{oops''\<rparr>
       = Inl (syntaxError ''Unexpected token'')
   \<and> noResponseText \<noteq> syntaxError ''Unexpected token''"
proof (intro conjI)
  show "validateSimulation failingEnv \<lparr>responseText = None\<rparr> = Inl noResponseText"
    using validator_empty_versus_malformed
            [where r = "\<lparr>responseText = None\<rparr>" and E = failingEnv]
    by simp
  have p: "parseSimulation failingEnv ''{oops'' = Inl ''Unexpected token''"
    by (simp add: failingEnv_def)
  show "validateSimulation failingEnv \<lparr>responseText = Some ''{oops''\<rparr>
       = Inl (syntaxError ''Unexpected token'')"
    using p validator_empty_versus_malformed
            [where r = "\<lparr>responseText = Some ''{oops''\<rparr>" and E = failingEnv
               and t = "''{oops''" and m = "''Unexpected token''"]
    by simp
  show "noResponseText \<noteq> syntaxError ''Unexpected token''"
    using validator_empty_versus_malformed[where m' = "''Unexpected token''"] by blast
qed

text \<open>
  C1, as stated, fails: with a service that answers every call with a server error,
  \<open>handlePublish\<close> does not return the application to its state before the submission.
  It ends in the state \<open>RESULT\<close> with a result and a new history entry.
\<close>

theorem publish_failure_counterexample:
  "\<not> (appState (fst (handlePublish failingEnv exampleApp 0)) = EDITOR \<and>
      history (fst (handlePublish failingEnv exampleApp 0)) = history exampleApp \<and>
      result (fst (handlePublish failingEnv exampleApp 0)) = result exampleApp)"
proof -
  have "fst (analyzeArticle failingEnv (currentArticle exampleApp) 0) = Inr fallbackResult"
    by (simp add: analyzeArticle_cases failingEnv_retry)
  then have "appState (fst (handlePublish failingEnv exampleApp 0)) = RESULT"
    by (simp add: handlePublish_fallback)
  then show ?thesis by simp
qed

text \<open>
  C1, amended. \<open>analyzeArticle\<close> never fails. For every failure of the primary flow (a
  transport failure, rate limiting that outlasts the retries, a response without text, a
  text that does not decode) it returns the fixed fallback result of its \<open>catch\<close> block,
  whose editor feedback is the error message shown to the user. \<open>handlePublish\<close> treats
  the fallback as any other result: it becomes the current result, it is put in front of
  the session history together with the article, and the application moves to \<open>RESULT\<close>.
\<close>

theorem primary_flow_failure_yields_fallback:
  "(\<exists>v tr w'. analyzeArticle E (currentArticle s) w = (Inr v, tr, w'))
   \<and> ((fst (retryRequest_default
               (generateContent E (SimulationRequest (buildPrompt E (currentArticle s)))) w) = Inl e)
       \<or> (fst (retryRequest_default
               (generateContent E (SimulationRequest (buildPrompt E (currentArticle s)))) w) = Inr r \<and>
           (responseText r = None \<or> responseText r = Some []))
       \<or> (fst (retryRequest_default
               (generateContent E (SimulationRequest (buildPrompt E (currentArticle s)))) w) = Inr r \<and>
           responseText r = Some t \<and> t \<noteq> [] \<and> parseSimulation E t = Inl m)
       \<longrightarrow> fst (analyzeArticle E (currentArticle s) w) = Inr fallbackResult \<and>
           fst (handlePublish E s w) =
             s\<lparr>appState := RESULT, result := Some fallbackResult,
               history := (currentArticle s, fallbackResult) # history s\<rparr>)"
proof (intro conjI impI)
  show "\<exists>v tr w'. analyzeArticle E (currentArticle s) w = (Inr v, tr, w')"
    by (rule analyzeArticle_total)
next
  let ?T = "retryRequest_default
              (generateContent E (SimulationRequest (buildPrompt E (currentArticle s)))) w"
  assume h: "(fst ?T = Inl e)
       \<or> (fst ?T = Inr r \<and> (responseText r = None \<or> responseText r = Some []))
       \<or> (fst ?T = Inr r \<and> responseText r = Some t \<and> t \<noteq> [] \<and> parseSimulation E t = Inl m)"
  obtain out tr w' where T: "?T = (out, tr, w')" by (cases ?T)
  from h show fb: "fst (analyzeArticle E (currentArticle s) w) = Inr fallbackResult"
  proof (elim disjE)
    assume "fst ?T = Inl e"
    then show ?thesis using T by (simp add: analyzeArticle_cases)
  next
    assume "fst ?T = Inr r \<and> (responseText r = None \<or> responseText r = Some [])"
    then have "out = Inr r" and "validateSimulation E r = Inl noResponseText"
      using T by (auto simp add: validateSimulation_def truthyStr_def)
    then show ?thesis using T by (simp add: analyzeArticle_cases)
  next
    assume "fst ?T = Inr r \<and> responseText r = Some t \<and> t \<noteq> [] \<and> parseSimulation E t = Inl m"
    then have "out = Inr r" and "validateSimulation E r = Inl (syntaxError m)"
      using T by (auto simp add: validateSimulation_def truthyStr_def)
    then show ?thesis using T by (simp add: analyzeArticle_cases)
  qed
  show "fst (handlePublish E s w) =
             s\<lparr>appState := RESULT, result := Some fallbackResult,
               history := (currentArticle s, fallbackResult) # history s\<rparr>"
    using fb by (rule handlePublish_fallback)
qed

theorem primary_flow_failure_yields_fallback_witness:
  "fst (handlePublish failingEnv exampleApp 0) =
       \<lparr> appState = RESULT, currentArticle = exampleArticle, result = Some fallbackResult,
         history = [(exampleArticle, fallbackResult)], alerts = [] \<rparr>
   \<and> fst (analyzeArticle failingEnv exampleArticle 0) = Inr fallbackResult
   \<and> fst (analyzeArticle rateLimitedEnv exampleArticle 0) = Inr fallbackResult
   \<and> fst (analyzeArticle emptyEnv exampleArticle 0) = Inr fallbackResult
   \<and> fst (analyzeArticle malformedEnv exampleArticle 0) = Inr fallbackResult"
proof -
  have c: "currentArticle exampleApp = exampleArticle" by (simp add: exampleApp_def)
  have t1: "fst (retryRequest_default
          (generateContent failingEnv
             (SimulationRequest (buildPrompt failingEnv (currentArticle exampleApp)))) 0)
        = Inl serverError"
    by (simp add: failingEnv_retry)
  have t2: "fst (retryRequest_default
          (generateContent rateLimitedEnv
             (SimulationRequest (buildPrompt rateLimitedEnv (currentArticle exampleApp)))) 0)
        = Inl rateLimitError"
    by (simp add: rateLimitedEnv_retry)
  have t3: "fst (retryRequest_default
          (generateContent emptyEnv
             (SimulationRequest (buildPrompt emptyEnv (currentArticle exampleApp)))) 0)
        = Inr \<lparr>responseText = None\<rparr>"
    by (simp add: emptyEnv_retry)
  have t4: "fst (retryRequest_default
          (generateContent malformedEnv
             (SimulationRequest (buildPrompt malformedEnv (currentArticle exampleApp)))) 0)
        = Inr \<lparr>responseText = Some ''{oops''\<rparr>"
    by (simp add: malformedEnv_retry)
  from primary_flow_failure_yields_fallback
         [where E = failingEnv and s = exampleApp and w = 0 and e = serverError] t1
  have r1: "fst (analyzeArticle failingEnv (currentArticle exampleApp) 0) = Inr fallbackResult \<and>
        fst (handlePublish failingEnv exampleApp 0) =
          exampleApp\<lparr>appState := RESULT, result := Some fallbackResult,
            history := (currentArticle exampleApp, fallbackResult) # history exampleApp\<rparr>"
    by blast
  from primary_flow_failure_yields_fallback
         [where E = rateLimitedEnv and s = exampleApp and w = 0 and e = rateLimitError] t2
  have r2: "fst (analyzeArticle rateLimitedEnv (currentArticle exampleApp) 0) = Inr fallbackResult"
    by blast
  from primary_flow_failure_yields_fallback
         [where E = emptyEnv and s = exampleApp and w = 0 and r = "\<lparr>responseText = None\<rparr>"] t3
  have r3: "fst (analyzeArticle emptyEnv (currentArticle exampleApp) 0) = Inr fallbackResult"
    by simp
  from primary_flow_failure_yields_fallback
         [where E = malformedEnv and s = exampleApp and w = 0
            and r = "\<lparr>responseText = Some ''{oops''\<rparr>" and t = "''{oops''"
            and m = "''Unexpected token''"] t4 malformedEnv_parse(2)
  have r4: "fst (analyzeArticle malformedEnv (currentArticle exampleApp) 0) = Inr fallbackResult"
    by simp
  show ?thesis using r1 r2 r3 r4 c by (simp add: exampleApp_def)
qed

section \<open>Properties of the conversation reconciler\<close>

lemma failingEnv_reaction:
  "generateReplyReaction failingEnv a c t n = (Inr [], [Call], Suc n)"
  by (simp add: generateReplyReaction_cases failingEnv_retry)

declare trimStart.simps [simp del] trimEnd.simps [simp del]

lemmas trim_eval =
  trim_def trimStart.simps trimEnd.simps leadingWhiteSpace_def trailingWhiteSpace_def
  whiteSpace_def

lemma trim_thanks: "trim ''thanks'' \<noteq> []"
  by (simp add: trim_eval)

text \<open>
  A reply that consists of white space beyond ASCII is blank: the ideographic space
  U+3000, the no-break space U+00A0 between two spaces.
\<close>

lemma trim_ideographic_space: "trim [CHR 0xE3, CHR 0x80, CHR 0x80] = []"
  by (simp add: trim_eval)

lemma trim_no_break_space: "trim ('' '' @ [CHR 0xC2, CHR 0xA0] @ '' '') = []"
  by (simp add: trim_eval)

lemma addReplies_update:
  "addReplies idx rs cs =
     (if idx < length cs then cs[idx := (cs ! idx)\<lparr>replies := replies (cs ! idx) @ rs\<rparr>] else cs)"
  by (rule nth_equalityI) (auto simp add: addReplies_def mapWithIndex_def nth_enumerate_eq)

lemma begin_nonblank:
  "trim (replyText d) \<noteq> [] \<Longrightarrow>
   handleSubmitReply_begin a idx c d =
     (d\<lparr>replyText := [], replyingTo := None, generatingReplyId := Some idx,
        localComments := addReplies idx [reporterReplyOf a (replyText d)] (localComments d)\<rparr>,
      Some (c, replyText d))"
  by (simp add: handleSubmitReply_begin_def)

text \<open>
  C2. The claim asks that a reply submitted on a displayed row is appended to the comment
  of that row, also when a platform filter is active. The code uses the index of the row
  in the filtered list as an index into the unfiltered list. With two comments, the
  filter selecting the platform of the second one, the only displayed row (index 0)
  shows the second comment; the reply submitted there is appended to the first comment,
  and the second comment, which is the one handed to the sub-flow, gets nothing.
\<close>

theorem filtered_reply_lands_on_other_comment:
  "filteredComments filteredDash ! 0 = commentB
   \<and> localComments (fst (submitRow failingEnv exampleArticle 0 filteredDash 0)) =
       [commentA\<lparr>replies := [reporterReplyOf exampleArticle ''thanks'']\<rparr>, commentB]"
proof
  show "filteredComments filteredDash ! 0 = commentB"
    by (simp add: filteredComments_def filteredDash_def commentA_def commentB_def)
next
  have f: "filteredComments filteredDash = [commentB]"
    by (simp add: filteredComments_def filteredDash_def commentA_def commentB_def)
  have b: "handleSubmitReply_begin exampleArticle 0 commentB filteredDash =
      (filteredDash\<lparr>replyText := [], replyingTo := None, generatingReplyId := Some 0,
         localComments := [commentA\<lparr>replies := [reporterReplyOf exampleArticle ''thanks'']\<rparr>,
                           commentB]\<rparr>,
       Some (commentB, ''thanks''))"
    using trim_thanks
    by (simp add: handleSubmitReply_begin_def filteredDash_def addReplies_def mapWithIndex_def
          commentA_def)
  have r: "replyingTo filteredDash = Some 0" by (simp add: filteredDash_def)
  have s1: "submitRow failingEnv exampleArticle 0 filteredDash 0 =
      handleSubmitReply failingEnv exampleArticle 0 commentB filteredDash 0"
    by (simp add: submitRow_def f r)
  have s2: "localComments (fst (handleSubmitReply failingEnv exampleArticle 0 commentB filteredDash 0)) =
      [commentA\<lparr>replies := [reporterReplyOf exampleArticle ''thanks'']\<rparr>, commentB]"
    by (simp add: handleSubmitReply_def b failingEnv_reaction handleSubmitReply_resume_def)
  show "localComments (fst (submitRow failingEnv exampleArticle 0 filteredDash 0)) =
       [commentA\<lparr>replies := [reporterReplyOf exampleArticle ''thanks'']\<rparr>, commentB]"
    using s1 s2 by simp
qed

text \<open>
  C3, as stated, fails: with no filter, the user replies to the first comment and, while
  that sub-flow call is pending, replies to the first comment again. Both submissions
  are accepted and two calls are in flight for the same thread.
\<close>

theorem second_reply_counterexample:
  "\<not> (inflightFor 0
        (run exampleArticle
           [OpenReply 0, TypeReply ''one'', SubmitReply 0,
            OpenReply 0, TypeReply ''two'', SubmitReply 0] freshSession) \<le> 1)"
proof -
  have "inflight
        (run exampleArticle
           [OpenReply 0, TypeReply ''one'', SubmitReply 0,
            OpenReply 0, TypeReply ''two'', SubmitReply 0] freshSession) =
        [(0, commentA, ''one''),
         (0, commentA\<lparr>replies := [reporterReplyOf exampleArticle ''one'']\<rparr>, ''two'')]"
    by (simp add: freshSession_def filteredComments_def handleSubmitReply_begin_def
          trim_eval addReplies_def mapWithIndex_def commentA_def)
  then show ?thesis by (simp add: inflightFor_def)
qed

text \<open>
  C3, amended. \<open>handleSubmitReply\<close> has no in-flight guard. Every reply submitted on a
  displayed row that is not blank (not empty after \<open>String.prototype.trim\<close>) starts a
  sub-flow call at once, whatever calls are pending, also for the same row: the number of
  calls in flight for that row grows by one. A blank reply changes nothing. The
  awaiting-reaction marker is a single index for the whole dashboard: a submission sets
  it to the index of its row, and the return of any pending call clears it, also while
  other calls are pending.
\<close>

theorem reply_submission_never_blocked:
  "(idx < length (filteredComments (dash s)) \<and> replyingTo (dash s) = Some idx \<and>
    trim (replyText (dash s)) \<noteq> []
      \<longrightarrow> inflight (step a (SubmitReply idx) s) =
            inflight s @ [(idx, filteredComments (dash s) ! idx, replyText (dash s))] \<and>
          inflightFor idx (step a (SubmitReply idx) s) = Suc (inflightFor idx s) \<and>
          generatingReplyId (dash (step a (SubmitReply idx) s)) = Some idx)
   \<and> (k < length (inflight s)
      \<longrightarrow> generatingReplyId (dash (step a (Resolve k outcome) s)) = None \<and>
          inflight (step a (Resolve k outcome) s) =
            take k (inflight s) @ drop (Suc k) (inflight s))
   \<and> (trim (replyText (dash s)) = [] \<longrightarrow> step a (SubmitReply idx) s = s)"
proof (intro conjI impI)
  assume h: "idx < length (filteredComments (dash s)) \<and> replyingTo (dash s) = Some idx \<and>
    trim (replyText (dash s)) \<noteq> []"
  then have a1: "idx < length (filteredComments (dash s))"
    and a2: "replyingTo (dash s) = Some idx"
    and a3: "trim (replyText (dash s)) \<noteq> []"
    by simp_all
  let ?d1 = "(dash s)\<lparr>replyText := [], replyingTo := None, generatingReplyId := Some idx,
        localComments :=
          addReplies idx [reporterReplyOf a (replyText (dash s))] (localComments (dash s))\<rparr>"
  have bg: "handleSubmitReply_begin a idx (filteredComments (dash s) ! idx) (dash s) =
      (?d1, Some (filteredComments (dash s) ! idx, replyText (dash s)))"
    using a3 by (rule begin_nonblank)
  have st: "step a (SubmitReply idx) s =
      s\<lparr>dash := ?d1,
        inflight := inflight s @ [(idx, filteredComments (dash s) ! idx, replyText (dash s))]\<rparr>"
    using a1 a2 by (simp add: bg)
  show "inflight (step a (SubmitReply idx) s) =
            inflight s @ [(idx, filteredComments (dash s) ! idx, replyText (dash s))]"
    unfolding st by simp
  show "inflightFor idx (step a (SubmitReply idx) s) = Suc (inflightFor idx s)"
    unfolding st by (simp add: inflightFor_def)
  show "generatingReplyId (dash (step a (SubmitReply idx) s)) = Some idx"
    unfolding st by simp
next
  assume k: "k < length (inflight s)"
  show "generatingReplyId (dash (step a (Resolve k outcome) s)) = None"
    using k by (simp add: handleSubmitReply_resume_def Let_def)
  show "inflight (step a (Resolve k outcome) s) =
            take k (inflight s) @ drop (Suc k) (inflight s)"
    using k by simp
next
  assume "trim (replyText (dash s)) = []"
  then show "step a (SubmitReply idx) s = s"
    by (simp add: handleSubmitReply_begin_def)
qed

theorem reply_submission_never_blocked_witness:
  "inflightFor 0
     (step exampleArticle (SubmitReply 0)
        \<lparr> dash = \<lparr> localComments = [commentA, commentB], replyingTo = Some 0,
                   replyText = ''two'', generatingReplyId = Some 0,
                   selectedPlatform = ''ALL'' \<rparr>,
          inflight = [(0, commentA, ''one'')] \<rparr>) = 2
   \<and> generatingReplyId
       (dash (step exampleArticle (Resolve 0 (Inr []))
          \<lparr> dash = \<lparr> localComments = [commentA, commentB], replyingTo = None,
                     replyText = [], generatingReplyId = Some 1,
                     selectedPlatform = ''ALL'' \<rparr>,
            inflight = [(0, commentA, ''one''), (1, commentB, ''two'')] \<rparr>)) = None
   \<and> step exampleArticle (SubmitReply 0)
        \<lparr> dash = \<lparr> localComments = [commentA, commentB], replyingTo = Some 0,
                   replyText = [CHR 0xE3, CHR 0x80, CHR 0x80], generatingReplyId = None,
                   selectedPlatform = ''ALL'' \<rparr>,
          inflight = [] \<rparr>
       = \<lparr> dash = \<lparr> localComments = [commentA, commentB], replyingTo = Some 0,
                   replyText = [CHR 0xE3, CHR 0x80, CHR 0x80], generatingReplyId = None,
                   selectedPlatform = ''ALL'' \<rparr>,
          inflight = [] \<rparr>"
proof (intro conjI)
  let ?s = "\<lparr> dash = \<lparr> localComments = [commentA, commentB], replyingTo = Some 0,
                   replyText = ''two'', generatingReplyId = Some 0,
                   selectedPlatform = ''ALL'' \<rparr>,
          inflight = [(0, commentA, ''one'')] \<rparr>"
  have h: "0 < length (filteredComments (dash ?s)) \<and> replyingTo (dash ?s) = Some 0 \<and>
    trim (replyText (dash ?s)) \<noteq> []"
    by (simp add: filteredComments_def trim_eval)
  have i: "inflightFor 0 ?s = 1" by (simp add: inflightFor_def)
  from reply_submission_never_blocked[where s = ?s and idx = 0 and a = exampleArticle] h
  have "inflightFor 0 (step exampleArticle (SubmitReply 0) ?s) = Suc (inflightFor 0 ?s)"
    by blast
  then show "inflightFor 0 (step exampleArticle (SubmitReply 0) ?s) = 2"
    using i by simp
next
  let ?s = "\<lparr> dash = \<lparr> localComments = [commentA, commentB], replyingTo = None,
                     replyText = [], generatingReplyId = Some 1,
                     selectedPlatform = ''ALL'' \<rparr>,
            inflight = [(0, commentA, ''one''), (1, commentB, ''two'')] \<rparr>"
  have k: "0 < length (inflight ?s)" by simp
  from reply_submission_never_blocked
         [where s = ?s and k = 0 and a = exampleArticle and outcome = "Inr []"] k
  show "generatingReplyId (dash (step exampleArticle (Resolve 0 (Inr [])) ?s)) = None"
    by blast
next
  let ?s = "\<lparr> dash = \<lparr> localComments = [commentA, commentB], replyingTo = Some 0,
                   replyText = [CHR 0xE3, CHR 0x80, CHR 0x80], generatingReplyId = None,
                   selectedPlatform = ''ALL'' \<rparr>,
          inflight = [] \<rparr>"
  have b: "trim (replyText (dash ?s)) = []"
    using trim_ideographic_space by simp
  from reply_submission_never_blocked[where s = ?s and idx = 0 and a = exampleArticle] b
  show "step exampleArticle (SubmitReply 0) ?s = ?s"
    by blast
qed

end
